theory Spec2Isabelle
  imports Main "HOL-Library.Word"
begin

unbundle bit_operations_syntax

section \<open>The type graph\<close>

text \<open>
  LLVM types as \<open>TypeOptimizer.cpp\<close> sees them. Integer, pointer, array and function
  types are uniqued by structure, so pointer equality of \<open>Type*\<close> is equality of the terms
  below. Struct types are identified: \<open>StructTy n\<close> is the n-th struct type of the module
  being rewritten, \<open>NewStructTy n\<close> is the struct that \<open>StructType::create\<close> makes in
  \<open>rewriteType\<close> for the old struct n (the members of \<open>newStructTypes\<close>).
\<close>

datatype ty =
    VoidTy
  | IntTy nat
  | FloatTy
  | DoubleTy
  | PtrTy ty
  | ArrTy ty nat
  | FuncTy ty "ty list" bool
  | StructTy nat
  | NewStructTy nat

fun isStructTy :: "ty \<Rightarrow> bool" where
  "isStructTy (StructTy n) = True"
| "isStructTy (NewStructTy n) = True"
| "isStructTy t = False"

fun isArrayTy :: "ty \<Rightarrow> bool" where
  "isArrayTy (ArrTy e n) = True"
| "isArrayTy t = False"

fun isPointerTy :: "ty \<Rightarrow> bool" where
  "isPointerTy (PtrTy e) = True"
| "isPointerTy t = False"

fun isIntegerTy :: "ty \<Rightarrow> bool" where
  "isIntegerTy (IntTy w) = True"
| "isIntegerTy t = False"

text \<open>The fields, the direct base and the flags of a struct type of the input module.\<close>

record struct_def =
  elems :: "ty list"
  directBase :: "nat option"
  isOpaque :: bool
  hasByteLayout :: bool
  hasAsmJS :: bool
  isPacked :: bool

text \<open>What \<open>setBody\<close>, \<open>setByteLayout\<close> and \<open>setAsmJS\<close> give a new struct.\<close>

record new_struct =
  nelems :: "ty list"
  npacked :: bool
  nbase :: "ty option"
  nbyteLayout :: bool
  nasmJS :: bool

datatype MAPPING_KIND =
    IDENTICAL
  | COLLAPSED
  | COLLAPSING
  | COLLAPSING_BUT_USED
  | BYTE_LAYOUT_TO_ARRAY
  | POINTER_FROM_ARRAY
  | FLATTENED_ARRAY
  | MERGED_MEMBER_ARRAYS
  | MERGED_MEMBER_ARRAYS_AND_COLLAPSED

record TypeMappingInfo =
  mappedType :: ty
  elementMappingKind :: MAPPING_KIND

definition TMI :: "ty \<Rightarrow> MAPPING_KIND \<Rightarrow> TypeMappingInfo" where
  "TMI t k = \<lparr>mappedType = t, elementMappingKind = k\<rparr>"

text \<open>
  What the pass reads and never writes while it rewrites types: the module's struct types,
  the collaborators that are not part of this file (\<open>TypeSupport::isClientType\<close>,
  \<open>TypeSupport::isJSExportedType\<close>, \<open>TypeSupport::getBasesMetadata\<close>, the data layout), and
  the two tables of \<open>gatherAllTypesInfo\<close> that \<open>rewriteType\<close> only consults.
\<close>

record env =
  structs :: "nat \<Rightarrow> struct_def"
  isClientType :: "ty \<Rightarrow> bool"
  isJSExportedType :: "nat \<Rightarrow> bool"
  basesMetadata :: "nat \<Rightarrow> nat option"
  getTypeAllocSize :: "ty \<Rightarrow> nat"
  getElementOffset :: "ty \<Rightarrow> nat \<Rightarrow> nat"
  escapingFields :: "(nat \<times> nat) set"
  downcastSourceToDestinationsMapping :: "nat \<rightharpoonup> nat list"

text \<open>The tables \<open>rewriteType\<close> writes.\<close>

record state =
  typesMapping :: "ty \<rightharpoonup> TypeMappingInfo"
  membersMappingData :: "nat \<rightharpoonup> (nat \<times> nat) list"
  baseTypesForByteLayout :: "nat \<rightharpoonup> ty option"
  newStructs :: "nat \<rightharpoonup> new_struct"
  newBasesMetadata :: "nat \<rightharpoonup> nat"

section \<open>Results: a value and the new tables, a failed assertion, or no more fuel\<close>

datatype 'a result = Done 'a | Abort | Timeout

type_synonym 'a M = "state \<Rightarrow> ('a \<times> state) result"

definition mret :: "'a \<Rightarrow> 'a M" where
  "mret x = (\<lambda>s. Done (x, s))"

definition mbind :: "'a M \<Rightarrow> ('a \<Rightarrow> 'b M) \<Rightarrow> 'b M" where
  "mbind m f = (\<lambda>s. case m s of Done (x, s') \<Rightarrow> f x s' | Abort \<Rightarrow> Abort | Timeout \<Rightarrow> Timeout)"

definition mabort :: "'a M" where
  "mabort = (\<lambda>s. Abort)"

definition mtimeout :: "'a M" where
  "mtimeout = (\<lambda>s. Timeout)"

definition mget :: "state M" where
  "mget = (\<lambda>s. Done (s, s))"

definition mmodify :: "(state \<Rightarrow> state) \<Rightarrow> unit M" where
  "mmodify f = (\<lambda>s. Done ((), f s))"

text \<open>A loop over a list that threads an accumulator and the tables.\<close>

fun mfold :: "('a \<Rightarrow> 'b \<Rightarrow> 'b M) \<Rightarrow> 'a list \<Rightarrow> 'b \<Rightarrow> 'b M" where
  "mfold f [] acc = mret acc"
| "mfold f (x # xs) acc = mbind (f x acc) (mfold f xs)"

definition setMapping :: "ty \<Rightarrow> TypeMappingInfo \<Rightarrow> unit M" where
  "setMapping t i = mmodify (\<lambda>s. s\<lparr>typesMapping := (typesMapping s)(t \<mapsto> i)\<rparr>)"

text \<open>The lambda \<open>CacheAndReturn\<close> of \<open>rewriteType\<close>.\<close>

definition CacheAndReturn :: "ty \<Rightarrow> ty \<Rightarrow> MAPPING_KIND \<Rightarrow> TypeMappingInfo M" where
  "CacheAndReturn t r kind = mbind (setMapping t (TMI r kind)) (\<lambda>_. mret (TMI r kind))"

section \<open>rewriteType\<close>

text \<open>
  \<open>addAllBaseTypesForByteLayout\<close>: the leaves of \<open>baseType\<close> narrow the entry of the
  byte layout struct \<open>st\<close>; \<open>Some None\<close> is the source's NULL entry (the views disagree).
  The recursion follows struct fields by value, so it carries fuel.
\<close>

definition structElements :: "env \<Rightarrow> state \<Rightarrow> ty \<Rightarrow> ty list" where
  "structElements env s t =
     (case t of
        StructTy b \<Rightarrow> elems (structs env b)
      | NewStructTy b \<Rightarrow> (case newStructs s b of None \<Rightarrow> [] | Some ns \<Rightarrow> nelems ns)
      | _ \<Rightarrow> [])"

definition noteBaseType :: "nat \<Rightarrow> ty \<Rightarrow> unit M" where
  "noteBaseType st baseType =
     mmodify (\<lambda>s. case baseTypesForByteLayout s st of
        None \<Rightarrow> s\<lparr>baseTypesForByteLayout := (baseTypesForByteLayout s)(st \<mapsto> Some baseType)\<rparr>
      | Some known \<Rightarrow>
          if known \<noteq> Some baseType
          then s\<lparr>baseTypesForByteLayout := (baseTypesForByteLayout s)(st \<mapsto> None)\<rparr>
          else s)"

fun addAllBaseTypesForByteLayout :: "nat \<Rightarrow> env \<Rightarrow> nat \<Rightarrow> ty \<Rightarrow> unit M" where
  "addAllBaseTypesForByteLayout 0 env st baseType = mtimeout"
| "addAllBaseTypesForByteLayout (Suc n) env st baseType =
     (if isArrayTy baseType then
        (case baseType of ArrTy e k \<Rightarrow> addAllBaseTypesForByteLayout n env st e | _ \<Rightarrow> mabort)
      else if isStructTy baseType then
        mbind mget (\<lambda>s.
          mfold (\<lambda>e u. addAllBaseTypesForByteLayout n env st e) (structElements env s baseType) ())
      else noteBaseType st baseType)"

text \<open>
  The loop \<open>while(curBase->getDirectBase() && curBase->getDirectBase()->getNumElements()>i)\<close>.
\<close>

fun curBaseLoop :: "nat \<Rightarrow> env \<Rightarrow> nat \<Rightarrow> nat \<Rightarrow> nat option" where
  "curBaseLoop 0 env curBase i = None"
| "curBaseLoop (Suc n) env curBase i =
     (case directBase (structs env curBase) of
        None \<Rightarrow> Some curBase
      | Some b \<Rightarrow>
          if length (elems (structs env b)) > i then curBaseLoop n env b i else Some curBase)"

text \<open>\<open>isUnsafeDowncastSource\<close>; the destinations are listed in the set's iteration order.\<close>

fun destinationsLoop :: "(ty \<Rightarrow> TypeMappingInfo M) \<Rightarrow> nat list \<Rightarrow> bool M" where
  "destinationsLoop rw [] = mret False"
| "destinationsLoop rw (destSt # ds) =
     mbind (rw (StructTy destSt)) (\<lambda>destStInfo.
       if elementMappingKind destStInfo \<noteq> COLLAPSED then mret True
       else destinationsLoop rw ds)"

definition isUnsafeDowncastSource :: "(ty \<Rightarrow> TypeMappingInfo M) \<Rightarrow> env \<Rightarrow> nat \<Rightarrow> bool M" where
  "isUnsafeDowncastSource rw env st =
     (case downcastSourceToDestinationsMapping env st of
        None \<Rightarrow> mret False
      | Some dests \<Rightarrow> if dests = [] then mret True else destinationsLoop rw dests)"

text \<open>
  The byte layout attempt, lines \<open>while(TypeSupport::hasByteLayout(st))\<close> to its closing
  brace: every path leaves the loop, by \<open>break\<close> (here \<open>None\<close>) or by \<open>return\<close>.
\<close>

fun subStructsLoop :: "(ty \<Rightarrow> TypeMappingInfo M) \<Rightarrow> env \<Rightarrow> ty list \<Rightarrow> bool M" where
  "subStructsLoop rw env [] = mret True"
| "subStructsLoop rw env (e # es) =
     (if \<not> isStructTy e then subStructsLoop rw env es
      else mbind mget (\<lambda>s.
        if \<not> (case e of StructTy b \<Rightarrow> hasByteLayout (structs env b)
                | NewStructTy b \<Rightarrow> (case newStructs s b of None \<Rightarrow> False | Some ns \<Rightarrow> nbyteLayout ns)
                | _ \<Rightarrow> False)
        then mret False
        else mbind (rw e) (\<lambda>subInfo.
          if elementMappingKind subInfo \<noteq> BYTE_LAYOUT_TO_ARRAY then mret False
          else subStructsLoop rw env es)))"

definition byteLayoutLoop ::
  "nat \<Rightarrow> (ty \<Rightarrow> TypeMappingInfo M) \<Rightarrow> env \<Rightarrow> nat \<Rightarrow> TypeMappingInfo option M" where
  "byteLayoutLoop n rw env st =
     mbind (addAllBaseTypesForByteLayout n env st (StructTy st)) (\<lambda>_.
     mbind mget (\<lambda>s.
       case baseTypesForByteLayout s st of
         None \<Rightarrow> mabort
       | Some None \<Rightarrow> mret None
       | Some (Some baseType) \<Rightarrow>
           let structSize = getTypeAllocSize env (StructTy st);
               elementSize = getTypeAllocSize env baseType
           in if elementSize = 0 then mabort
              else if structSize mod elementSize \<noteq> 0 then mret None
              else mbind (subStructsLoop rw env (elems (structs env st))) (\<lambda>areSubStructsConvertible.
                if \<not> areSubStructsConvertible then mret None
                else let numElements = structSize div elementSize
                     in if numElements = 1
                        then mbind (CacheAndReturn (StructTy st) baseType BYTE_LAYOUT_TO_ARRAY)
                               (\<lambda>i. mret (Some i))
                        else mbind (CacheAndReturn (StructTy st) (ArrTy baseType numElements)
                                      BYTE_LAYOUT_TO_ARRAY)
                               (\<lambda>i. mret (Some i)))))"

text \<open>
  The member loop of an ordinary struct with more than one field. \<open>membersMapping\<close>
  gives each old field its new field and its offset inside it (elements of a merged array,
  bits of a merged integer); \<open>mergedInts\<close> lists the new integer fields with free bits.
\<close>

record merge_state =
  newTypes :: "ty list"
  membersMapping :: "(nat \<times> nat) list"
  arraysFound :: "ty \<rightharpoonup> nat"
  mergedInts :: "(nat \<times> nat) list"
  directBaseLimit :: nat
  curDirectBase :: "nat option"
  hasMergedArrays :: bool
  firstBaseEnd :: nat

definition initialMergeState :: "env \<Rightarrow> nat \<Rightarrow> merge_state" where
  "initialMergeState env st =
     \<lparr>newTypes = [], membersMapping = [], arraysFound = Map.empty, mergedInts = [],
      directBaseLimit = 0, curDirectBase = None, hasMergedArrays = False,
      firstBaseEnd = (case basesMetadata env st of None \<Rightarrow> 0 | Some firstBaseBegin \<Rightarrow> firstBaseBegin)\<rparr>"

text \<open>
  The inner loop over \<open>mergedInts\<close>: the first integer with at least \<open>bw\<close> free bits is
  taken (its entry as it was, for the offset), its free bits shrink, and an entry with no
  free bits left is erased.
\<close>

fun fillMergedInt :: "nat \<Rightarrow> (nat \<times> nat) list \<Rightarrow> ((nat \<times> nat) \<times> (nat \<times> nat) list) option" where
  "fillMergedInt bw [] = None"
| "fillMergedInt bw ((first, free) # ms) =
     (if free < bw then
        (case fillMergedInt bw ms of
           None \<Rightarrow> None
         | Some (hit, ms') \<Rightarrow> Some (hit, (first, free) # ms'))
      else Some ((first, free), (if free - bw = 0 then ms else (first, free - bw) # ms)))"

definition decFirstBaseEnd :: "env \<Rightarrow> nat \<Rightarrow> nat \<Rightarrow> merge_state \<Rightarrow> merge_state" where
  "decFirstBaseEnd env st i ms =
     (case basesMetadata env st of
        None \<Rightarrow> ms
      | Some firstBaseBegin \<Rightarrow>
          if i < firstBaseBegin then ms\<lparr>firstBaseEnd := firstBaseEnd ms - 1\<rparr> else ms)"

definition pushMember :: "ty \<Rightarrow> merge_state \<Rightarrow> merge_state" where
  "pushMember rewrittenType ms =
     ms\<lparr>membersMapping := membersMapping ms @ [(length (newTypes ms), 0)],
        newTypes := newTypes ms @ [rewrittenType]\<rparr>"

definition resetAtBaseLimit :: "nat \<Rightarrow> env \<Rightarrow> nat \<Rightarrow> nat \<Rightarrow> merge_state \<Rightarrow> merge_state M" where
  "resetAtBaseLimit n env st i ms =
     (if i = directBaseLimit ms then
        (case curBaseLoop n env st i of
           None \<Rightarrow> mtimeout
         | Some curBase \<Rightarrow>
             mret (ms\<lparr>arraysFound := Map.empty, mergedInts := [],
                      curDirectBase := Some curBase,
                      directBaseLimit := length (elems (structs env curBase))\<rparr>))
      else mret ms)"

definition mergeMember ::
  "nat \<Rightarrow> (ty \<Rightarrow> TypeMappingInfo M) \<Rightarrow> env \<Rightarrow> nat \<Rightarrow> nat \<times> ty \<Rightarrow> merge_state \<Rightarrow> merge_state M" where
  "mergeMember n rw env st = (\<lambda>(i, elementType) ms0.
     mbind (resetAtBaseLimit n env st i ms0) (\<lambda>ms.
     mbind (rw elementType) (\<lambda>info.
       let rewrittenType = mappedType info in
       if hasByteLayout (structs env st) then
         mret (ms\<lparr>newTypes := newTypes ms @ [rewrittenType]\<rparr>)
       else (case rewrittenType of
         ArrTy arrayElementType atNum \<Rightarrow>
           (case arraysFound ms arrayElementType of
              Some typeIndex \<Rightarrow>
                (if typeIndex < length (newTypes ms) then
                   (case newTypes ms ! typeIndex of
                      ArrTy pe previousNum \<Rightarrow>
                        mret (decFirstBaseEnd env st i
                          (ms\<lparr>newTypes := (newTypes ms)[typeIndex := ArrTy arrayElementType (previousNum + atNum)],
                              membersMapping := membersMapping ms @ [(typeIndex, previousNum)],
                              hasMergedArrays := True\<rparr>))
                    | _ \<Rightarrow> mabort)
                 else mabort)
            | None \<Rightarrow>
                mret (pushMember rewrittenType
                  (ms\<lparr>arraysFound := (arraysFound ms)(arrayElementType \<mapsto> length (newTypes ms))\<rparr>)))
       | IntTy bw \<Rightarrow>
           let fieldEscapes = (case curDirectBase ms of
                                 None \<Rightarrow> False
                               | Some b \<Rightarrow> (b, i) \<in> escapingFields env)
           in if \<not> fieldEscapes \<and> bw < 32 then
                (case fillMergedInt bw (mergedInts ms) of
                   Some ((first, free), mergedInts') \<Rightarrow>
                     (if first < length (newTypes ms) then
                        (case newTypes ms ! first of
                           IntTy oldWidth \<Rightarrow>
                             mret (decFirstBaseEnd env st i
                               (ms\<lparr>newTypes := (newTypes ms)[first := IntTy (oldWidth + bw)],
                                   membersMapping := membersMapping ms @ [(first, 32 - free)],
                                   mergedInts := mergedInts',
                                   hasMergedArrays := True\<rparr>))
                         | _ \<Rightarrow> mabort)
                      else mabort)
                 | None \<Rightarrow>
                     mret (pushMember rewrittenType
                       (ms\<lparr>mergedInts := mergedInts ms @ [(length (newTypes ms), 32 - bw)]\<rparr>)))
              else mret (pushMember rewrittenType ms)
       | _ \<Rightarrow> mret (pushMember rewrittenType ms)))))"

text \<open>
  What follows the member loop when arrays or integers were merged: the members mapping is
  recorded (\<open>insert\<close> keeps an entry that is already there) and the bases metadata updated.
\<close>

definition recordMergedMembers :: "env \<Rightarrow> nat \<Rightarrow> merge_state \<Rightarrow> unit M" where
  "recordMergedMembers env st ms =
     (if newTypes ms = [] then mabort
      else mmodify (\<lambda>s.
        s\<lparr>membersMappingData :=
             (case membersMappingData s st of
                None \<Rightarrow> (membersMappingData s)(st \<mapsto> membersMapping ms)
              | Some old \<Rightarrow> membersMappingData s),
           newBasesMetadata :=
             (case basesMetadata env st of
                None \<Rightarrow> newBasesMetadata s
              | Some firstBaseBegin \<Rightarrow> (newBasesMetadata s)(st \<mapsto> firstBaseEnd ms))\<rparr>))"

text \<open>
  "Forge the new element types": the three shapes of the member pass, giving the new field
  types and the kind of the new struct so far.
\<close>

definition forgeNewTypes ::
  "nat \<Rightarrow> (ty \<Rightarrow> TypeMappingInfo M) \<Rightarrow> env \<Rightarrow> nat \<Rightarrow> (ty list \<times> MAPPING_KIND) M" where
  "forgeNewTypes n rw env st =
     (let sd = structs env st in
      if hasAsmJS sd then
        mbind (mfold (\<lambda>elTy acc. mbind (rw elTy) (\<lambda>i. mret (acc @ [mappedType i]))) (elems sd) [])
          (\<lambda>tys. mret (tys, IDENTICAL))
      else if length (elems sd) > 1 then
        mbind (mfold (mergeMember n rw env st) (enumerate 0 (elems sd)) (initialMergeState env st))
          (\<lambda>ms.
            if length (membersMapping ms) \<noteq> length (elems sd) \<and> \<not> hasByteLayout sd then mabort
            else if hasMergedArrays ms then
              mbind (recordMergedMembers env st ms) (\<lambda>_. mret (newTypes ms, MERGED_MEMBER_ARRAYS))
            else mret (newTypes ms, IDENTICAL))
      else if length (elems sd) = 1 then mret ([hd (elems sd)], IDENTICAL)
      else mret ([], IDENTICAL))"

text \<open>
  The test that guards the collapse of a struct left with the single field \<open>t0\<close>.
\<close>

definition mayCollapse :: "env \<Rightarrow> nat \<Rightarrow> ty \<Rightarrow> bool" where
  "mayCollapse env st t0 =
     ((case t0 of PtrTy pointee \<Rightarrow> isClientType env pointee | _ \<Rightarrow> False) \<or>
      (t0 \<noteq> IntTy 8 \<and> \<not> isPointerTy t0 \<and> \<not> isJSExportedType env st \<and>
       \<not> hasByteLayout (structs env st)))"

text \<open>
  The collapse attempt: \<open>Inl\<close> is the \<open>return\<close> of a collapsed struct, \<open>Inr\<close> the field
  types with which the new struct's body is set.
\<close>

definition collapseOrKeep ::
  "(ty \<Rightarrow> TypeMappingInfo M) \<Rightarrow> env \<Rightarrow> nat \<Rightarrow> ty list \<Rightarrow> MAPPING_KIND \<Rightarrow>
   (TypeMappingInfo + ty list) M" where
  "collapseOrKeep rw env st tys newStructKind =
     (if length tys = 1 \<and> \<not> hasAsmJS (structs env st) then
        (let t0 = hd tys;
             keep = mbind (rw t0) (\<lambda>i. mret (Inr [mappedType i]))
         in if mayCollapse env st t0 then
              mbind (isUnsafeDowncastSource rw env st) (\<lambda>unsafe.
                if \<not> unsafe then
                  mbind (setMapping (StructTy st) (TMI t0 COLLAPSING)) (\<lambda>_.
                  mbind (rw t0) (\<lambda>collapsed.
                  mbind mget (\<lambda>s.
                    case typesMapping s (StructTy st) of
                      None \<Rightarrow> mabort
                    | Some cur \<Rightarrow>
                        if elementMappingKind cur \<noteq> COLLAPSING_BUT_USED then
                          (if elementMappingKind cur \<noteq> COLLAPSING then mabort
                           else if newStructKind \<noteq> MERGED_MEMBER_ARRAYS then
                             mbind (CacheAndReturn (StructTy st) (mappedType collapsed) COLLAPSED)
                               (\<lambda>i. mret (Inl i))
                           else
                             mbind (CacheAndReturn (StructTy st) (mappedType collapsed)
                                      MERGED_MEMBER_ARRAYS_AND_COLLAPSED)
                               (\<lambda>i. mret (Inl i)))
                        else
                          mbind (setMapping (StructTy st) (TMI (NewStructTy st) IDENTICAL))
                            (\<lambda>_. keep))))
                else keep)
            else keep)
      else mret (Inr tys))"

definition setBody :: "env \<Rightarrow> nat \<Rightarrow> ty list \<Rightarrow> ty option \<Rightarrow> unit M" where
  "setBody env st tys newDirectBase =
     mmodify (\<lambda>s. s\<lparr>newStructs := (newStructs s)(st \<mapsto>
        \<lparr>nelems = tys, npacked = isPacked (structs env st), nbase = newDirectBase,
         nbyteLayout = hasByteLayout (structs env st),
         nasmJS = (\<not> hasByteLayout (structs env st) \<and> hasAsmJS (structs env st))\<rparr>)\<rparr>)"

definition rewriteStruct ::
  "nat \<Rightarrow> (ty \<Rightarrow> TypeMappingInfo M) \<Rightarrow> env \<Rightarrow> nat \<Rightarrow> TypeMappingInfo M" where
  "rewriteStruct n rw env st =
     (let t = StructTy st; sd = structs env st in
      if isClientType env t then CacheAndReturn t t IDENTICAL
      else if isOpaque sd then CacheAndReturn t t IDENTICAL
      else
        mbind (if hasByteLayout sd then byteLayoutLoop n rw env st else mret None) (\<lambda>flat.
          case flat of
            Some info \<Rightarrow> mret info
          | None \<Rightarrow>
              mbind (setMapping t (TMI (NewStructTy st) IDENTICAL)) (\<lambda>_.
              mbind (forgeNewTypes n rw env st) (\<lambda>(tys, newStructKind).
              mbind (collapseOrKeep rw env st tys newStructKind) (\<lambda>r.
                case r of
                  Inl info \<Rightarrow> mret info
                | Inr tys' \<Rightarrow>
                    mbind (case directBase sd of
                             None \<Rightarrow> mret None
                           | Some b \<Rightarrow>
                               mbind (rw (StructTy b)) (\<lambda>bi.
                                 mret (if isStructTy (mappedType bi) then Some (mappedType bi)
                                       else None)))
                      (\<lambda>newDirectBase.
                    mbind (setBody env st tys' newDirectBase) (\<lambda>_.
                    CacheAndReturn t (NewStructTy st) newStructKind)))))))"

text \<open>
  The memo lookup that opens \<open>rewriteType\<close> and the dispatch on the kind of type. \<open>rw\<close> is
  \<open>rewriteType\<close> itself, for the recursive calls; \<open>n\<close> is fuel for the two auxiliary loops.
\<close>

definition rewriteTypeBody ::
  "nat \<Rightarrow> (ty \<Rightarrow> TypeMappingInfo M) \<Rightarrow> env \<Rightarrow> ty \<Rightarrow> TypeMappingInfo M" where
  "rewriteTypeBody n rw env t =
     (case t of
        NewStructTy k \<Rightarrow> mabort
      | _ \<Rightarrow>
        mbind mget (\<lambda>s.
          case typesMapping s t of
            Some found \<Rightarrow>
              (if elementMappingKind found = COLLAPSING then
                 (if isStructTy (mappedType found) then
                    (if mappedType found = t then mabort else rw (mappedType found))
                  else
                    mbind (setMapping t (found\<lparr>elementMappingKind := COLLAPSING_BUT_USED\<rparr>))
                      (\<lambda>_. mret (found\<lparr>elementMappingKind := COLLAPSING_BUT_USED\<rparr>)))
               else mret found)
          | None \<Rightarrow>
              (case t of
                 StructTy st \<Rightarrow> rewriteStruct n rw env st
               | FuncTy retTy params isVarArg \<Rightarrow>
                   mbind (rw retTy) (\<lambda>newReturnType.
                   mbind (mfold (\<lambda>p acc. mbind (rw p) (\<lambda>i. mret (acc @ [mappedType i]))) params [])
                     (\<lambda>newParameters.
                   CacheAndReturn t (FuncTy (mappedType newReturnType) newParameters isVarArg)
                     IDENTICAL))
               | PtrTy elementType \<Rightarrow>
                   mbind (rw elementType) (\<lambda>newInfo.
                     case mappedType newInfo of
                       ArrTy arrayElementType num \<Rightarrow>
                         CacheAndReturn t (PtrTy arrayElementType) POINTER_FROM_ARRAY
                     | newType \<Rightarrow>
                         if newType = elementType then CacheAndReturn t t IDENTICAL
                         else CacheAndReturn t (PtrTy newType) IDENTICAL)
               | ArrTy elementType num \<Rightarrow>
                   mbind (rw elementType) (\<lambda>newInfo.
                     case mappedType newInfo of
                       ArrTy subElementType subNum \<Rightarrow>
                         CacheAndReturn t (ArrTy subElementType (num * subNum)) FLATTENED_ARRAY
                     | newType \<Rightarrow>
                         if newType = elementType then CacheAndReturn t t IDENTICAL
                         else CacheAndReturn t (ArrTy newType num) IDENTICAL)
               | _ \<Rightarrow> CacheAndReturn t t IDENTICAL)))"

fun rewriteType :: "nat \<Rightarrow> env \<Rightarrow> ty \<Rightarrow> TypeMappingInfo M" where
  "rewriteType 0 env t = mtimeout"
| "rewriteType (Suc n) env t = rewriteTypeBody n (rewriteType n env) env t"

section \<open>rewriteGEPIndexes\<close>

text \<open>
  An index of an address computation: a constant, a value known only at run time, or the
  \<open>Add\<close> and \<open>Mul\<close> instructions the rewriter inserts. Constant indexes are folded as
  naturals; the bit width of an index is not modelled.
\<close>

datatype idx = ConstantInt nat | Value nat | Add idx idx | Mul idx idx

record gep_state =
  newIndexes :: "idx list"
  addToLastIndex :: bool
  integerOffset :: nat
  curType :: ty

text \<open>
  The lambdas \<open>AddIndex\<close> and \<open>AddMultipliedIndex\<close>; \<open>ip\<close> says that there is an
  insertion point (an instruction is rewritten, not a constant expression).
\<close>

definition AddIndex :: "bool \<Rightarrow> idx \<Rightarrow> gep_state \<Rightarrow> gep_state M" where
  "AddIndex ip V g =
     (if addToLastIndex g then
        (if newIndexes g = [] then mabort
         else if ip then
           mret (g\<lparr>newIndexes := butlast (newIndexes g) @ [Add (last (newIndexes g)) V],
                   addToLastIndex := False\<rparr>)
         else (case (last (newIndexes g), V) of
                 (ConstantInt a, ConstantInt b) \<Rightarrow>
                   mret (g\<lparr>newIndexes := butlast (newIndexes g) @ [ConstantInt (a + b)],
                           addToLastIndex := False\<rparr>)
               | _ \<Rightarrow> mabort))
      else mret (g\<lparr>newIndexes := newIndexes g @ [V], addToLastIndex := False\<rparr>))"

definition AddMultipliedIndex :: "bool \<Rightarrow> idx \<Rightarrow> nat \<Rightarrow> gep_state \<Rightarrow> gep_state M" where
  "AddMultipliedIndex ip V multiplier g =
     (if ip then AddIndex ip (Mul V (ConstantInt multiplier)) g
      else (case V of
              ConstantInt a \<Rightarrow> AddIndex ip (ConstantInt (a * multiplier)) g
            | _ \<Rightarrow> mabort))"

definition getSequentialElementType :: "ty \<Rightarrow> ty option" where
  "getSequentialElementType t =
     (case t of PtrTy e \<Rightarrow> Some e | ArrTy e n \<Rightarrow> Some e | _ \<Rightarrow> None)"

text \<open>The type one index further: a field of a struct, the element of a pointer or array.\<close>

definition nextType :: "env \<Rightarrow> ty \<Rightarrow> idx \<Rightarrow> ty M" where
  "nextType env t ix =
     (if isStructTy t then
        mbind mget (\<lambda>s.
          case ix of
            ConstantInt k \<Rightarrow>
              if k < length (structElements env s t) then mret (structElements env s t ! k)
              else mabort
          | _ \<Rightarrow> mabort)
      else (case getSequentialElementType t of None \<Rightarrow> mabort | Some e \<Rightarrow> mret e))"

text \<open>
  The end of \<open>rewriteGEPIndexes\<close>: the assertion on the type reached, and the zero index
  for a target that is an array.
\<close>

definition finishGEP ::
  "(ty \<Rightarrow> TypeMappingInfo M) \<Rightarrow> bool \<Rightarrow> ty \<Rightarrow> nat \<Rightarrow> gep_state \<Rightarrow> (idx list \<times> nat) M" where
  "finishGEP rw ip targetType ret g =
     mbind (rw (curType g)) (\<lambda>i.
       if mappedType i \<noteq> targetType then mabort
       else if isArrayTy targetType then
         mbind (AddIndex ip (ConstantInt 0) g) (\<lambda>g'. mret (newIndexes g', ret))
       else mret (newIndexes g, ret))"

text \<open>
  The inner loop of the \<open>BYTE_LAYOUT_TO_ARRAY\<close> case: the remaining indexes become one
  offset counted in elements of the base type.
\<close>

fun byteLayoutIndexes ::
  "env \<Rightarrow> bool \<Rightarrow> nat \<Rightarrow> idx list \<Rightarrow> gep_state \<Rightarrow> gep_state M" where
  "byteLayoutIndexes env ip baseTypeSize [] g = mret g"
| "byteLayoutIndexes env ip baseTypeSize (ix # rest) g =
     mbind
       (if isStructTy (curType g) then
          (case ix of
             ConstantInt elementIndex \<Rightarrow>
               let elementOffset = getElementOffset env (curType g) elementIndex in
               if elementOffset mod baseTypeSize \<noteq> 0 then mabort
               else mbind (AddIndex ip (ConstantInt (elementOffset div baseTypeSize)) g) (\<lambda>g1.
                    mbind (nextType env (curType g) ix) (\<lambda>t. mret (g1\<lparr>curType := t\<rparr>)))
           | _ \<Rightarrow> mabort)
        else
          (case getSequentialElementType (curType g) of
             None \<Rightarrow> mabort
           | Some e \<Rightarrow>
               let elementSize = getTypeAllocSize env e in
               if elementSize mod baseTypeSize \<noteq> 0 then mabort
               else mbind (AddMultipliedIndex ip ix (elementSize div baseTypeSize) g) (\<lambda>g1.
                    mret (g1\<lparr>curType := e\<rparr>))))
       (\<lambda>g2. byteLayoutIndexes env ip baseTypeSize rest (g2\<lparr>addToLastIndex := True\<rparr>))"

text \<open>The shared body of the \<open>POINTER_FROM_ARRAY\<close> and \<open>FLATTENED_ARRAY\<close> cases.\<close>

definition flattenedIndex ::
  "(ty \<Rightarrow> TypeMappingInfo M) \<Rightarrow> env \<Rightarrow> bool \<Rightarrow> TypeMappingInfo \<Rightarrow> idx \<Rightarrow> gep_state \<Rightarrow> gep_state M" where
  "flattenedIndex rw env ip info ix g =
     (case (getSequentialElementType (curType g), getSequentialElementType (mappedType info)) of
        (Some oldElement, Some newElement) \<Rightarrow>
          mbind (rw oldElement) (\<lambda>oi.
            let oldTypeSize = getTypeAllocSize env (mappedType oi);
                elementSize = getTypeAllocSize env newElement
            in if elementSize = 0 then mabort
               else if oldTypeSize mod elementSize \<noteq> 0 then mabort
               else mbind (AddMultipliedIndex ip ix (oldTypeSize div elementSize) g) (\<lambda>g1.
                    mret (g1\<lparr>addToLastIndex := True\<rparr>)))
      | _ \<Rightarrow> mabort)"

text \<open>The \<open>MERGED_MEMBER_ARRAYS\<close> and \<open>MERGED_MEMBER_ARRAYS_AND_COLLAPSED\<close> cases.\<close>

definition mergedIndex ::
  "(ty \<Rightarrow> TypeMappingInfo M) \<Rightarrow> env \<Rightarrow> bool \<Rightarrow> TypeMappingInfo \<Rightarrow> idx \<Rightarrow> gep_state \<Rightarrow> gep_state M" where
  "mergedIndex rw env ip info ix g =
     (case (curType g, ix) of
        (StructTy oldStruct, ConstantInt elementIndex) \<Rightarrow>
          mbind mget (\<lambda>s.
            case membersMappingData s oldStruct of
              None \<Rightarrow> mabort
            | Some mm \<Rightarrow>
                if \<not> elementIndex < length mm
                   \<or> \<not> elementIndex < length (elems (structs env oldStruct)) then mabort
                else
                  let mappedMember = mm ! elementIndex in
                  mbind (if elementMappingKind info = MERGED_MEMBER_ARRAYS
                         then AddIndex ip (ConstantInt (fst mappedMember)) g
                         else if fst mappedMember \<noteq> 0 then mabort else mret g) (\<lambda>g1.
                  mbind (rw (elems (structs env oldStruct) ! elementIndex)) (\<lambda>mappedElement.
                    if isIntegerTy (mappedType mappedElement) then
                      mret (g1\<lparr>integerOffset := integerOffset g1 + snd mappedMember\<rparr>)
                    else if snd mappedMember \<noteq> 0 then
                      mbind (AddIndex ip (ConstantInt (snd mappedMember)) g1) (\<lambda>g2.
                        mret (g2\<lparr>addToLastIndex := True\<rparr>))
                    else mret g1)))
      | _ \<Rightarrow> mabort)"

text \<open>
  The walk over the indexes. \<open>first\<close> holds at the first index only (\<open>i == 0\<close>).
\<close>

fun gepLoop ::
  "(ty \<Rightarrow> TypeMappingInfo M) \<Rightarrow> env \<Rightarrow> bool \<Rightarrow> ty \<Rightarrow> bool \<Rightarrow> idx list \<Rightarrow> gep_state \<Rightarrow>
   (idx list \<times> nat) M" where
  "gepLoop rw env ip targetType first [] g =
     finishGEP rw ip targetType (integerOffset g mod 256) g"
| "gepLoop rw env ip targetType first (ix # rest) g =
     mbind (rw (curType g)) (\<lambda>curTypeMappingInfo.
       let advance = (\<lambda>g1. mbind (nextType env (curType g) ix) (\<lambda>t.
                        gepLoop rw env ip targetType False rest (g1\<lparr>curType := t\<rparr>)))
       in case elementMappingKind curTypeMappingInfo of
            IDENTICAL \<Rightarrow> mbind (AddIndex ip ix g) advance
          | COLLAPSED \<Rightarrow> advance g
          | BYTE_LAYOUT_TO_ARRAY \<Rightarrow>
              (if integerOffset g \<noteq> 0 then mabort
               else case curType g of
                 StructTy st \<Rightarrow>
                   if mappedType curTypeMappingInfo = targetType then
                     (if isArrayTy targetType then
                        mbind (AddIndex ip (ConstantInt 0) g) (\<lambda>g1. mret (newIndexes g1, 0))
                      else mret (newIndexes g, 0))
                   else mbind mget (\<lambda>s.
                     case baseTypesForByteLayout s st of
                       Some (Some baseType) \<Rightarrow>
                         if \<not> isArrayTy (mappedType curTypeMappingInfo) then
                           (if mappedType curTypeMappingInfo \<noteq> baseType then mabort
                            else mret (newIndexes g, 0))
                         else
                           let baseTypeSize = getTypeAllocSize env baseType in
                           if baseTypeSize = 0 then mabort
                           else mbind (byteLayoutIndexes env ip baseTypeSize (ix # rest) g)
                                  (finishGEP rw ip targetType 0)
                     | _ \<Rightarrow> mabort)
               | _ \<Rightarrow> mabort)
          | POINTER_FROM_ARRAY \<Rightarrow>
              (if \<not> first then mabort
               else mbind (flattenedIndex rw env ip curTypeMappingInfo ix g) advance)
          | FLATTENED_ARRAY \<Rightarrow> mbind (flattenedIndex rw env ip curTypeMappingInfo ix g) advance
          | MERGED_MEMBER_ARRAYS \<Rightarrow> mbind (mergedIndex rw env ip curTypeMappingInfo ix g) advance
          | MERGED_MEMBER_ARRAYS_AND_COLLAPSED \<Rightarrow>
              mbind (mergedIndex rw env ip curTypeMappingInfo ix g) advance
          | COLLAPSING \<Rightarrow> mabort
          | COLLAPSING_BUT_USED \<Rightarrow> mabort)"

definition rewriteGEPIndexes ::
  "nat \<Rightarrow> env \<Rightarrow> ty \<Rightarrow> idx list \<Rightarrow> ty \<Rightarrow> bool \<Rightarrow> (idx list \<times> nat) M" where
  "rewriteGEPIndexes n env ptrType idxs targetType ip =
     gepLoop (rewriteType n env) env ip targetType True idxs
       \<lparr>newIndexes = [], addToLastIndex = False, integerOffset = 0, curType = ptrType\<rparr>"

section \<open>Concrete modules used as instances\<close>

text \<open>The tables before the first call of \<open>rewriteType\<close>.\<close>

definition initialState :: state where
  "initialState =
     \<lparr>typesMapping = Map.empty, membersMappingData = Map.empty,
      baseTypesForByteLayout = Map.empty, newStructs = Map.empty,
      newBasesMetadata = Map.empty\<rparr>"

definition plainStruct :: "ty list \<Rightarrow> struct_def" where
  "plainStruct tys =
     \<lparr>elems = tys, directBase = None, isOpaque = False, hasByteLayout = False,
      hasAsmJS = False, isPacked = False\<rparr>"

text \<open>
  A module with the given struct types, no client or exported type, no cast and no escaping
  field; sizes as on the 32 bit target.
\<close>

fun allocSize32 :: "(nat \<Rightarrow> struct_def) \<Rightarrow> nat \<Rightarrow> ty \<Rightarrow> nat" where
  "allocSize32 sts 0 t = 0"
| "allocSize32 sts (Suc n) VoidTy = 0"
| "allocSize32 sts (Suc n) (IntTy w) = (w + 7) div 8"
| "allocSize32 sts (Suc n) FloatTy = 4"
| "allocSize32 sts (Suc n) DoubleTy = 8"
| "allocSize32 sts (Suc n) (PtrTy e) = 4"
| "allocSize32 sts (Suc n) (ArrTy e k) = k * allocSize32 sts n e"
| "allocSize32 sts (Suc n) (FuncTy r ps v) = 0"
| "allocSize32 sts (Suc n) (StructTy k) = sum_list (map (allocSize32 sts n) (elems (sts k)))"
| "allocSize32 sts (Suc n) (NewStructTy k) = 0"

definition plainEnv :: "(nat \<Rightarrow> struct_def) \<Rightarrow> env" where
  "plainEnv sts =
     \<lparr>structs = sts, isClientType = (\<lambda>t. False), isJSExportedType = (\<lambda>k. False),
      basesMetadata = (\<lambda>k. None), getTypeAllocSize = allocSize32 sts 8,
      getElementOffset = (\<lambda>t i. 0), escapingFields = {},
      downcastSourceToDestinationsMapping = Map.empty\<rparr>"

text \<open>Struct 0 is \<open>{ struct 1 }\<close> and struct 1 is \<open>{ i32 }\<close>.\<close>

definition wrapperStructs :: "nat \<Rightarrow> struct_def" where
  "wrapperStructs k =
     (if k = 0 then plainStruct [StructTy 1]
      else if k = 1 then plainStruct [IntTy 32]
      else plainStruct [])"

section \<open>The load and store sequences for merged integers\<close>

text \<open>
  \<open>rewriteFunction\<close>, case \<open>Instruction::Store\<close>, for a pointer into a merged integer:
  \<open>mergedload\<close> is the shared word \<open>w\<close>; \<open>maskVal\<close> is computed in 32 bits from the width
  \<open>bw\<close> of the stored value and the offset, and \<open>ConstantInt::get\<close> brings it to the
  width of the shared word; the value is zero extended and, for an offset that is not 0,
  shifted left; the result of \<open>mergedinsert\<close> is what the store writes.
\<close>

definition maskVal :: "nat \<Rightarrow> nat \<Rightarrow> 32 word" where
  "maskVal bw offset = NOT (push_bit offset (push_bit bw 1 - 1))"

definition mergedStore :: "'a::len word \<Rightarrow> nat \<Rightarrow> 'b::len word \<Rightarrow> 'a word" where
  "mergedStore w offset v =
     (let mergedmask = w AND ucast (maskVal LENGTH('b) offset);
          mergedext = (ucast v :: 'a word);
          mergedshift = (if offset \<noteq> 0 then push_bit offset mergedext else mergedext)
      in mergedmask OR mergedshift)"

text \<open>
  Case \<open>Instruction::Load\<close>: the shared word is loaded, shifted right arithmetically for
  an offset that is not 0, and truncated to the type of the field.
\<close>

definition mergedLoad :: "'a::len word \<Rightarrow> nat \<Rightarrow> 'b::len word" where
  "mergedLoad w offset =
     (let mergedshift = (if offset \<noteq> 0 then signed_drop_bit offset w else w)
      in ucast mergedshift)"

text \<open>Struct 0 is \<open>{ i8, i8 }\<close> and struct 1 is \<open>{ i8, i8, i16 }\<close>.\<close>

definition byteStructs :: "nat \<Rightarrow> struct_def" where
  "byteStructs k =
     (if k = 0 then plainStruct [IntTy 8, IntTy 8]
      else if k = 1 then plainStruct [IntTy 8, IntTy 8, IntTy 16]
      else plainStruct [])"


section \<open>gatherAllTypesInfo: the casts\<close>






section \<open>What a call of rewriteType may do to the memo table\<close>

text \<open>
  The writes to \<open>typesMapping\<close> that \<open>rewriteType\<close> makes, by the kind written: a struct
  is marked \<open>COLLAPSING\<close>, and later \<open>COLLAPSED\<close> or
  \<open>MERGED_MEMBER_ARRAYS_AND_COLLAPSED\<close>, only if \<open>isUnsafeDowncastSource\<close> answered no,
  so its destination set is not the empty one; \<open>COLLAPSING_BUT_USED\<close> only replaces
  \<open>COLLAPSING\<close>; \<open>BYTE_LAYOUT_TO_ARRAY\<close> is only given to byte layout structs.
\<close>

definition isCollapsingEntry :: "(ty \<rightharpoonup> TypeMappingInfo) \<Rightarrow> ty \<Rightarrow> bool" where
  "isCollapsingEntry tm t =
     (case tm t of None \<Rightarrow> False | Some f \<Rightarrow> elementMappingKind f = COLLAPSING)"

definition notEmptyDestinations :: "env \<Rightarrow> ty \<Rightarrow> bool" where
  "notEmptyDestinations env t =
     (case t of StructTy k \<Rightarrow> downcastSourceToDestinationsMapping env k \<noteq> Some []
      | _ \<Rightarrow> False)"

definition allowedWrite :: "env \<Rightarrow> (ty \<rightharpoonup> TypeMappingInfo) \<Rightarrow> ty \<Rightarrow> TypeMappingInfo \<Rightarrow> bool" where
  "allowedWrite env tm t i =
     (case elementMappingKind i of
        IDENTICAL \<Rightarrow> True
      | MERGED_MEMBER_ARRAYS \<Rightarrow> True
      | POINTER_FROM_ARRAY \<Rightarrow> True
      | FLATTENED_ARRAY \<Rightarrow> True
      | BYTE_LAYOUT_TO_ARRAY \<Rightarrow>
          (case t of StructTy k \<Rightarrow> hasByteLayout (structs env k) | _ \<Rightarrow> False)
      | COLLAPSING \<Rightarrow> notEmptyDestinations env t
      | COLLAPSED \<Rightarrow> notEmptyDestinations env t \<and> isCollapsingEntry tm t
      | MERGED_MEMBER_ARRAYS_AND_COLLAPSED \<Rightarrow> notEmptyDestinations env t \<and> isCollapsingEntry tm t
      | COLLAPSING_BUT_USED \<Rightarrow> isCollapsingEntry tm t)"

inductive evolves :: "env \<Rightarrow> state \<Rightarrow> state \<Rightarrow> bool" for env :: env where
  ev_refl: "evolves env s s"
| ev_frame: "evolves env s s1 \<Longrightarrow> typesMapping s2 = typesMapping s1 \<Longrightarrow> evolves env s s2"
| ev_write: "evolves env s s1 \<Longrightarrow> allowedWrite env (typesMapping s1) t i \<Longrightarrow>
             typesMapping s2 = (typesMapping s1)(t \<mapsto> i) \<Longrightarrow> evolves env s s2"

text \<open>A computation that, started in \<open>s\<close>, only makes such writes.\<close>

definition evolvesAt :: "env \<Rightarrow> state \<Rightarrow> 'a M \<Rightarrow> bool" where
  "evolvesAt env s m = (\<forall>x s'. m s = Done (x, s') \<longrightarrow> evolves env s s')"



text \<open>
  Struct 0 is \<open>{ [2 x struct 1], [2 x struct 1] }\<close> and struct 1 is
  \<open>{ struct 0*, i32 }\<close>: struct 0 reaches itself through the pointer in struct 1.
\<close>

definition selfRefStructs :: "nat \<Rightarrow> struct_def" where
  "selfRefStructs k =
     (if k = 0 then plainStruct [ArrTy (StructTy 1) 2, ArrTy (StructTy 1) 2]
      else if k = 1 then plainStruct [PtrTy (StructTy 0), IntTy 32]
      else plainStruct [])"

text \<open>
  Struct 0 is \<open>{ struct 1 }\<close>, struct 1 is \<open>{ struct 2 }\<close> and struct 2 is
  \<open>{ struct 0* }\<close>; struct 3 is \<open>{ [2 x struct 3*] }\<close>.
\<close>

definition cycleStructs :: "nat \<Rightarrow> struct_def" where
  "cycleStructs k =
     (if k = 0 then plainStruct [StructTy 1]
      else if k = 1 then plainStruct [StructTy 2]
      else if k = 2 then plainStruct [PtrTy (StructTy 0)]
      else if k = 3 then plainStruct [ArrTy (PtrTy (StructTy 3)) 2]
      else plainStruct [])"

section \<open>gatherAllTypesInfo: the views of byte layout structs\<close>

text \<open>
  A \<open>BitCastInst\<close> from a pointer to \<open>srcTy\<close> to a pointer to \<open>dstTy\<close>: for a byte
  layout struct \<open>srcTy\<close> the leaves of \<open>dstTy\<close> are recorded.
\<close>

definition gatherBitCast :: "nat \<Rightarrow> env \<Rightarrow> ty \<times> ty \<Rightarrow> unit M" where
  "gatherBitCast n env = (\<lambda>(srcTy, dstTy).
     case srcTy of
       StructTy st \<Rightarrow>
         if hasByteLayout (structs env st) then addAllBaseTypesForByteLayout n env st dstTy
         else mret ()
     | _ \<Rightarrow> mret ())"

definition gatherBitCasts :: "nat \<Rightarrow> env \<Rightarrow> (ty \<times> ty) list \<Rightarrow> unit M" where
  "gatherBitCasts n env casts = mfold (\<lambda>c u. gatherBitCast n env c) casts ()"

text \<open>
  Structs 0 and 1 are byte layout structs \<open>{ [3 x double] }\<close> of 24 bytes. Struct 0 is
  only ever viewed as \<open>double\<close>; struct 1 is viewed as \<open>i32\<close> in one place and as
  \<open>double\<close> in another.
\<close>

definition unionStructs :: "nat \<Rightarrow> struct_def" where
  "unionStructs k =
     (if k = 0 \<or> k = 1 then (plainStruct [ArrTy DoubleTy 3])\<lparr>hasByteLayout := True\<rparr>
      else plainStruct [])"

definition unionViews :: "(ty \<times> ty) list" where
  "unionViews = [(StructTy 0, DoubleTy), (StructTy 1, IntTy 32), (StructTy 1, DoubleTy)]"

section \<open>Shapes of rewritten index lists\<close>





section \<open>Entries of the memo table are kept\<close>

text \<open>
  From \<open>s\<close> to \<open>s'\<close> the entry of \<open>t\<close> is kept: it is the same, or it was \<open>COLLAPSING\<close>
  with a target that is no struct and is now \<open>COLLAPSING_BUT_USED\<close>.
\<close>

definition keeps :: "state \<Rightarrow> state \<Rightarrow> ty \<Rightarrow> bool" where
  "keeps s s' t =
     (case typesMapping s t of
        None \<Rightarrow> True
      | Some f \<Rightarrow>
          typesMapping s' t = Some f
          \<or> (elementMappingKind f = COLLAPSING \<and> \<not> isStructTy (mappedType f)
              \<and> typesMapping s' t = Some (f\<lparr>elementMappingKind := COLLAPSING_BUT_USED\<rparr>)))"

definition stableExcept :: "ty set \<Rightarrow> state \<Rightarrow> state \<Rightarrow> bool" where
  "stableExcept K s s' = (\<forall>t. t \<notin> K \<longrightarrow> keeps s s' t)"

definition stableAt :: "ty set \<Rightarrow> state \<Rightarrow> 'a M \<Rightarrow> bool" where
  "stableAt K s m = (\<forall>x s'. m s = Done (x, s') \<longrightarrow> stableExcept K s s')"

section \<open>Properties\<close>

lemmas monad_defs =
  mbind_def mret_def mget_def mmodify_def mabort_def mtimeout_def setMapping_def
  CacheAndReturn_def

subsection \<open>The writes of rewriteType to the memo table\<close>


lemma eA_ret [intro!, simp]: "evolvesAt env s (mret x)"
  by (simp add: evolvesAt_def mret_def ev_refl)

lemma eA_abort [intro!, simp]: "evolvesAt env s mabort"
  by (simp add: evolvesAt_def mabort_def)

lemma eA_timeout [intro!, simp]: "evolvesAt env s mtimeout"
  by (simp add: evolvesAt_def mtimeout_def)
















lemma forgeNewTypes_kind:
  "forgeNewTypes n rw env st s = Done ((tys, k), s') \<Longrightarrow>
     k = IDENTICAL \<or> k = MERGED_MEMBER_ARRAYS"
  unfolding forgeNewTypes_def Let_def
  by (auto simp: mbind_def mret_def mabort_def split: if_splits result.splits)










lemma CAR_Done:
  "(CacheAndReturn t r k s = Done (i, s')) =
     (i = TMI r k \<and> s' = s\<lparr>typesMapping := (typesMapping s)(t \<mapsto> TMI r k)\<rparr>)"
  by (auto simp: monad_defs)

lemma byteLayoutLoop_result:
  "byteLayoutLoop n rw env st s = Done (Some i, s') \<Longrightarrow>
     typesMapping s' (StructTy st) = Some i \<and> elementMappingKind i = BYTE_LAYOUT_TO_ARRAY"
  unfolding byteLayoutLoop_def Let_def
  by (auto simp: mbind_def mret_def mget_def mabort_def CAR_Done TMI_def
        split: result.splits option.splits if_splits)

lemma collapseOrKeep_result:
  "collapseOrKeep rw env st tys k s = Done (Inl i, s') \<Longrightarrow>
     typesMapping s' (StructTy st) = Some i \<and>
     (elementMappingKind i = COLLAPSED \<or> elementMappingKind i = MERGED_MEMBER_ARRAYS_AND_COLLAPSED)"
  unfolding collapseOrKeep_def Let_def
  by (auto simp: mbind_def mret_def mget_def mabort_def CAR_Done TMI_def
        split: result.splits option.splits if_splits)

lemma rewriteStruct_result:
  "rewriteStruct n rw env st s = Done (i, s') \<Longrightarrow>
     typesMapping s' (StructTy st) = Some i \<and> elementMappingKind i \<noteq> COLLAPSING"
  unfolding rewriteStruct_def Let_def
  by (auto simp: mbind_def mret_def CAR_Done TMI_def
        dest!: byteLayoutLoop_result collapseOrKeep_result forgeNewTypes_kind
        split: result.splits option.splits if_splits sum.splits prod.splits)

lemma rewriteTypeBody_result:
  "rewriteTypeBody n rw env t s = Done (i, s') \<Longrightarrow> \<not> isCollapsingEntry (typesMapping s) t \<Longrightarrow>
     typesMapping s' t = Some i \<and> elementMappingKind i \<noteq> COLLAPSING"
  unfolding rewriteTypeBody_def
  by (auto simp: mbind_def mret_def mget_def mabort_def CAR_Done TMI_def isCollapsingEntry_def
        dest!: rewriteStruct_result
        split: result.splits option.splits if_splits ty.splits)

lemma rewriteTypeBody_memo:
  "typesMapping s t = Some i \<Longrightarrow> elementMappingKind i \<noteq> COLLAPSING \<Longrightarrow>
   (\<forall>k. t \<noteq> NewStructTy k) \<Longrightarrow> rewriteTypeBody n rw env t s = Done (i, s)"
  unfolding rewriteTypeBody_def
  by (auto simp: mbind_def mret_def mget_def split: ty.splits)




lemma rewriteType_result:
  assumes "rewriteType n env t s = Done (i, s')" and "\<not> isCollapsingEntry (typesMapping s) t"
  shows "typesMapping s' t = Some i \<and> elementMappingKind i \<noteq> COLLAPSING"
proof (cases n)
  case 0
  with assms show ?thesis by (simp add: mtimeout_def)
next
  case (Suc m)
  with assms show ?thesis by (auto dest: rewriteTypeBody_result)
qed







text \<open>
  C9. A struct \<open>a\<close> whose only field is the struct \<open>b\<close>, whose only field is an
  \<open>i32\<close>, with no byte layout, export, client type or recorded cast: \<open>rewriteType\<close> maps
  \<open>a\<close> to \<open>i32\<close> with kind \<open>COLLAPSED\<close>, and \<open>rewriteGEPIndexes\<close> on the field indexes
  \<open>[0, 0]\<close> against \<open>a\<close> emits the empty index list and the residual offset 0.
\<close>

theorem C9_nested_wrapper_collapses:
  assumes a: "structs env a = \<lparr>elems = [StructTy b], directBase = None, isOpaque = False,
                hasByteLayout = False, hasAsmJS = False, isPacked = pa\<rparr>"
      and b: "structs env b = \<lparr>elems = [IntTy 32], directBase = None, isOpaque = False,
                hasByteLayout = False, hasAsmJS = False, isPacked = pb\<rparr>"
      and nc: "\<not> isClientType env (StructTy a)" "\<not> isClientType env (StructTy b)"
      and ne: "\<not> isJSExportedType env a" "\<not> isJSExportedType env b"
      and nd: "downcastSourceToDestinationsMapping env a = None"
              "downcastSourceToDestinationsMapping env b = None"
      and s: "typesMapping s = Map.empty"
      and s1: "s1 = s\<lparr>typesMapping := [IntTy 32 \<mapsto> TMI (IntTy 32) IDENTICAL,
                                         StructTy b \<mapsto> TMI (IntTy 32) COLLAPSED,
                                         StructTy a \<mapsto> TMI (IntTy 32) COLLAPSED]\<rparr>"
  shows "rewriteType (Suc (Suc (Suc n))) env (StructTy a) s = Done (TMI (IntTy 32) COLLAPSED, s1)
       \<and> rewriteGEPIndexes (Suc m) env (StructTy a) [ConstantInt 0, ConstantInt 0] (IntTy 32) ip s1
           = Done (([], 0), s1)"
proof -
  have ab: "a \<noteq> b" using a b by auto
  have rt: "rewriteType (Suc (Suc (Suc n))) env (StructTy a) s = Done (TMI (IntTy 32) COLLAPSED, s1)"
    using assms ab
    by (simp add: rewriteTypeBody_def rewriteStruct_def forgeNewTypes_def collapseOrKeep_def
          mayCollapse_def isUnsafeDowncastSource_def monad_defs TMI_def fun_upd_twist Let_def)
  have gep: "rewriteGEPIndexes (Suc m) env (StructTy a) [ConstantInt 0, ConstantInt 0] (IntTy 32) ip s1
           = Done (([], 0), s1)"
    using a b ab s1
    by (simp add: rewriteGEPIndexes_def rewriteTypeBody_def finishGEP_def nextType_def
          structElements_def monad_defs TMI_def Let_def)
  from rt gep show ?thesis by simp
qed

theorem C9_nested_wrapper_collapses_witness:
  "rewriteType 3 (plainEnv wrapperStructs) (StructTy 0) initialState
     = Done (TMI (IntTy 32) COLLAPSED,
             initialState\<lparr>typesMapping := [IntTy 32 \<mapsto> TMI (IntTy 32) IDENTICAL,
                                             StructTy 1 \<mapsto> TMI (IntTy 32) COLLAPSED,
                                             StructTy 0 \<mapsto> TMI (IntTy 32) COLLAPSED]\<rparr>)
   \<and> rewriteGEPIndexes 1 (plainEnv wrapperStructs) (StructTy 0) [ConstantInt 0, ConstantInt 0]
        (IntTy 32) False
        (initialState\<lparr>typesMapping := [IntTy 32 \<mapsto> TMI (IntTy 32) IDENTICAL,
                                       StructTy 1 \<mapsto> TMI (IntTy 32) COLLAPSED,
                                       StructTy 0 \<mapsto> TMI (IntTy 32) COLLAPSED]\<rparr>)
     = Done (([], 0),
             initialState\<lparr>typesMapping := [IntTy 32 \<mapsto> TMI (IntTy 32) IDENTICAL,
                                             StructTy 1 \<mapsto> TMI (IntTy 32) COLLAPSED,
                                             StructTy 0 \<mapsto> TMI (IntTy 32) COLLAPSED]\<rparr>)"
  using C9_nested_wrapper_collapses
    [of "plainEnv wrapperStructs" 0 1 False False initialState _ 0 0 False]
  by (simp add: plainEnv_def wrapperStructs_def plainStruct_def initialState_def
        numeral_3_eq_3)

subsection \<open>Merged integers: the store and load sequences\<close>

lemma maskVal_eq: "maskVal bw off = NOT (push_bit off (mask bw))"
  by (simp add: maskVal_def mask_eq_exp_minus_1)

lemma maskVal_bit: "bit (maskVal bw off) n \<longleftrightarrow> n < 32 \<and> \<not> (off \<le> n \<and> n - off < bw)"
  by (auto simp add: maskVal_eq bit_simps)

lemma mergedStore_bit:
  "bit (mergedStore (w::'a::len word) off (v::'b::len word)) n \<longleftrightarrow>
     n < LENGTH('a) \<and>
     ((bit w n \<and> n < 32 \<and> \<not> (off \<le> n \<and> n - off < LENGTH('b))) \<or> (off \<le> n \<and> bit v (n - off)))"
  by (auto simp add: mergedStore_def Let_def bit_simps maskVal_bit dest: bit_imp_le_length)

lemma mergedLoad_bit:
  "bit (mergedLoad (w::'a::len word) off :: 'b::len word) n \<longleftrightarrow>
     n < LENGTH('b) \<and> n < LENGTH('a) \<and>
     bit w (if off + n < LENGTH('a) then off + n else LENGTH('a) - 1)"
  by (auto simp add: mergedLoad_def Let_def bit_simps bit_signed_drop_bit_iff
      dest: bit_imp_le_length)

lemma two_bytes_struct_word:
  "case rewriteType 2 (plainEnv byteStructs) (StructTy 0) initialState of
     Done (i, s) \<Rightarrow> i = TMI (IntTy 16) MERGED_MEMBER_ARRAYS_AND_COLLAPSED
                    \<and> membersMappingData s 0 = Some [(0, 0), (0, 8)]
   | _ \<Rightarrow> False"
  by code_simp

lemma three_fields_struct_word:
  "case rewriteType 2 (plainEnv byteStructs) (StructTy 1) initialState of
     Done (i, s) \<Rightarrow> i = TMI (IntTy 32) MERGED_MEMBER_ARRAYS_AND_COLLAPSED
                    \<and> membersMappingData s 1 = Some [(0, 0), (0, 8), (0, 16)]
   | _ \<Rightarrow> False"
  by code_simp

text \<open>
  C2, as stated, fails. The struct \<open>{ i8, i8, i16 }\<close> has its two 8 bit fields in one 32
  bit word at the offsets 0 and 8, and the 16 bit field at the offset 16 of the same word.
  After a store of \<open>0xFFFF\<close> to the third field, the stores of 1 and 2 to the first two
  fields leave a word that is not \<open>1 | (2 << 8)\<close>.
\<close>

theorem C2_direct_load_counterexample:
  "(case rewriteType 2 (plainEnv byteStructs) (StructTy 1) initialState of
      Done (i, s) \<Rightarrow> i = TMI (IntTy 32) MERGED_MEMBER_ARRAYS_AND_COLLAPSED
                     \<and> membersMappingData s 1 = Some [(0, 0), (0, 8), (0, 16)]
    | _ \<Rightarrow> False)
   \<and> mergedStore (mergedStore (mergedStore (0::32 word) 16 (0xFFFF::16 word)) 0 (1::8 word)) 8
        (2::8 word)
      \<noteq> ucast (1::8 word) OR push_bit 8 (ucast (2::8 word))"
  using three_fields_struct_word by (simp add: mergedStore_def maskVal_def)

text \<open>
  C2, amended. Two 8 bit fields at the bit offsets 0 and 8 of a shared word: after the store
  sequences for \<open>v0\<close> and \<open>v1\<close>, the load sequences give back \<open>v0\<close> and \<open>v1\<close>, whatever
  the word held before. In a 32 bit word the direct load is \<open>v0 | (v1 << 8)\<close> in the bits
  0 to 15 and the old contents above them. For the struct of just these two fields
  \<open>rewriteType\<close> makes the shared word 16 bits wide, and there the direct load is
  \<open>v0 | (v1 << 8)\<close>.
\<close>

theorem C2_merged_bytes_roundtrip:
  fixes w :: "32 word" and h :: "16 word" and v0 v1 :: "8 word"
  shows "mergedLoad (mergedStore (mergedStore w 0 v0) 8 v1) 0 = v0
       \<and> mergedLoad (mergedStore (mergedStore w 0 v0) 8 v1) 8 = v1
       \<and> mergedStore (mergedStore w 0 v0) 8 v1
           = (w AND NOT (mask 16)) OR (ucast v0 OR push_bit 8 (ucast v1))
       \<and> (case rewriteType 2 (plainEnv byteStructs) (StructTy 0) initialState of
            Done (i, s) \<Rightarrow> i = TMI (IntTy 16) MERGED_MEMBER_ARRAYS_AND_COLLAPSED
                           \<and> membersMappingData s 0 = Some [(0, 0), (0, 8)]
          | _ \<Rightarrow> False)
       \<and> mergedLoad (mergedStore (mergedStore h 0 v0) 8 v1) 0 = v0
       \<and> mergedLoad (mergedStore (mergedStore h 0 v0) 8 v1) 8 = v1
       \<and> mergedStore (mergedStore h 0 v0) 8 v1 = ucast v0 OR push_bit 8 (ucast v1)"
proof -
  have a: "mergedLoad (mergedStore (mergedStore w 0 v0) 8 v1) 0 = v0"
    by (rule bit_word_eqI; auto simp add: mergedStore_bit mergedLoad_bit bit_simps
          dest: bit_imp_le_length)
  have b: "mergedLoad (mergedStore (mergedStore w 0 v0) 8 v1) 8 = v1"
    by (rule bit_word_eqI; auto simp add: mergedStore_bit mergedLoad_bit bit_simps
          dest: bit_imp_le_length)
  have c: "mergedStore (mergedStore w 0 v0) 8 v1
           = (w AND NOT (mask 16)) OR (ucast v0 OR push_bit 8 (ucast v1))"
    by (rule bit_word_eqI; auto simp add: mergedStore_bit mergedLoad_bit bit_simps
          dest: bit_imp_le_length)
  have d: "mergedLoad (mergedStore (mergedStore h 0 v0) 8 v1) 0 = v0"
    by (rule bit_word_eqI; auto simp add: mergedStore_bit mergedLoad_bit bit_simps
          dest: bit_imp_le_length)
  have e: "mergedLoad (mergedStore (mergedStore h 0 v0) 8 v1) 8 = v1"
    by (rule bit_word_eqI; auto simp add: mergedStore_bit mergedLoad_bit bit_simps
          dest: bit_imp_le_length)
  have f: "mergedStore (mergedStore h 0 v0) 8 v1 = ucast v0 OR push_bit 8 (ucast v1)"
    by (rule bit_word_eqI; auto simp add: mergedStore_bit mergedLoad_bit bit_simps
          dest: bit_imp_le_length)
  from a b c d e f two_bytes_struct_word show ?thesis by simp
qed

subsection \<open>Merged member arrays\<close>



subsection \<open>Sources of downcasts and virtualcasts\<close>







subsection \<open>Memoization\<close>

text \<open>
  A call of \<open>rewriteType\<close> keeps every entry that the memo table holds when the call
  starts, but for one change: an entry of kind \<open>COLLAPSING\<close> whose target is no struct may
  become \<open>COLLAPSING_BUT_USED\<close>. \<open>stableAt K\<close> allows any change to the entries of the
  types in \<open>K\<close>, which are the types that the call itself adds.
\<close>

lemma keeps_refl [simp]: "keeps s s t"
  by (simp add: keeps_def split: option.splits)

lemma keeps_trans: "keeps s s1 t \<Longrightarrow> keeps s1 s2 t \<Longrightarrow> keeps s s2 t"
  by (auto simp: keeps_def split: option.splits)

lemma stableExcept_refl [simp]: "stableExcept K s s"
  by (simp add: stableExcept_def)

lemma stableExcept_trans:
  "stableExcept K s s1 \<Longrightarrow> stableExcept K s1 s2 \<Longrightarrow> stableExcept K s s2"
  unfolding stableExcept_def by (blast intro: keeps_trans)

lemma stableExcept_mono: "stableExcept {} s s' \<Longrightarrow> stableExcept K s s'"
  by (simp add: stableExcept_def)

lemma stableExcept_fresh:
  "stableExcept {k} s s' \<Longrightarrow> typesMapping s k = None \<Longrightarrow> stableExcept {} s s'"
  unfolding stableExcept_def
proof (intro allI impI)
  fix t
  assume a: "\<forall>t. t \<notin> {k} \<longrightarrow> keeps s s' t" and n: "typesMapping s k = None"
  show "keeps s s' t"
  proof (cases "t = k")
    case True
    with n show ?thesis by (simp add: keeps_def)
  next
    case False
    with a show ?thesis by simp
  qed
qed

lemma sA_ret [intro!, simp]: "stableAt K s (mret x)"
  by (simp add: stableAt_def mret_def)

lemma sA_abort [intro!, simp]: "stableAt K s mabort"
  by (simp add: stableAt_def mabort_def)

lemma sA_timeout [intro!, simp]: "stableAt K s mtimeout"
  by (simp add: stableAt_def mtimeout_def)

lemma sA_bind:
  assumes "stableAt K s m"
      and "\<And>x s'. m s = Done (x, s') \<Longrightarrow> stableAt K s' (f x)"
  shows "stableAt K s (mbind m f)"
  using assms unfolding stableAt_def mbind_def
  by (auto split: result.splits intro: stableExcept_trans)

lemma sA_get_bind: "stableAt K s (f s) \<Longrightarrow> stableAt K s (mbind mget f)"
  by (simp add: stableAt_def mbind_def mget_def)

lemma sA_frame: "typesMapping (g s) = typesMapping s \<Longrightarrow> stableAt K s (mmodify g)"
  by (auto simp add: stableAt_def mmodify_def stableExcept_def keeps_def split: option.splits)

lemma sA_setMapping: "t \<in> K \<Longrightarrow> stableAt K s (setMapping t i)"
  by (auto simp add: stableAt_def setMapping_def mmodify_def stableExcept_def keeps_def
        split: option.splits)

lemma sA_CAR: "t \<in> K \<Longrightarrow> stableAt K s (CacheAndReturn t r k)"
  unfolding CacheAndReturn_def by (rule sA_bind) (auto intro: sA_setMapping)

lemma sA_mono: "stableAt {} s m \<Longrightarrow> stableAt K s m"
  by (auto simp: stableAt_def intro: stableExcept_mono)

lemma sA_mfold:
  assumes "\<And>x a s. stableAt K s (f x a)"
  shows "stableAt K s (mfold f xs a)"
proof (induction xs arbitrary: a s)
  case Nil
  show ?case by simp
next
  case (Cons x xs)
  show ?case by (auto intro!: sA_bind assms Cons.IH)
qed

lemma sA_noteBaseType: "stableAt K s (noteBaseType st b)"
  unfolding noteBaseType_def
  by (rule sA_frame) (auto split: option.splits)

lemma sA_addAll: "stableAt K s (addAllBaseTypesForByteLayout n env st b)"
proof (induction n arbitrary: b s)
  case 0
  show ?case by simp
next
  case (Suc n)
  show ?case
    by (auto intro!: sA_get_bind sA_mfold Suc sA_noteBaseType split: ty.splits)
qed

lemma sA_destinationsLoop:
  assumes "\<And>t s. stableAt K s (rw t)"
  shows "stableAt K s (destinationsLoop rw ds)"
  by (induction ds arbitrary: s) (auto intro!: sA_bind assms)

lemma sA_isUnsafe:
  assumes "\<And>t s. stableAt K s (rw t)"
  shows "stableAt K s (isUnsafeDowncastSource rw env st)"
  unfolding isUnsafeDowncastSource_def
  by (auto intro!: sA_destinationsLoop assms split: option.splits)

lemma sA_subStructsLoop:
  assumes "\<And>t s. stableAt K s (rw t)"
  shows "stableAt K s (subStructsLoop rw env es)"
  by (induction es arbitrary: s) (auto intro!: sA_bind sA_get_bind assms)

lemma sA_byteLayoutLoop:
  assumes "\<And>t s. stableAt K s (rw t)" and "StructTy st \<in> K"
  shows "stableAt K s (byteLayoutLoop n rw env st)"
  unfolding byteLayoutLoop_def Let_def
  by (auto intro!: sA_bind sA_get_bind sA_CAR sA_addAll sA_subStructsLoop assms
        split: option.splits)

lemma sA_resetAtBaseLimit: "stableAt K s (resetAtBaseLimit n env st i ms)"
  unfolding resetAtBaseLimit_def
  by (auto split: option.splits)

lemma sA_mergeMember:
  assumes "\<And>t s. stableAt K s (rw t)"
  shows "stableAt K s (mergeMember n rw env st x ms)"
  unfolding mergeMember_def Let_def
  by (cases x)
     (auto intro!: sA_bind sA_resetAtBaseLimit assms
        split: ty.splits option.splits prod.splits)

lemma sA_recordMergedMembers: "stableAt K s (recordMergedMembers env st ms)"
  unfolding recordMergedMembers_def
  by (auto intro!: sA_frame)

lemma sA_forgeNewTypes:
  assumes "\<And>t s. stableAt K s (rw t)"
  shows "stableAt K s (forgeNewTypes n rw env st)"
  unfolding forgeNewTypes_def Let_def
  by (auto intro!: sA_bind sA_mfold sA_mergeMember sA_recordMergedMembers assms)

lemma sA_collapseOrKeep:
  assumes "\<And>t s. stableAt K s (rw t)" and "StructTy st \<in> K"
  shows "stableAt K s (collapseOrKeep rw env st tys k)"
  unfolding collapseOrKeep_def Let_def
  by (auto intro!: sA_bind sA_get_bind sA_CAR sA_setMapping sA_isUnsafe assms
        split: option.splits)

lemma sA_setBody: "stableAt K s (setBody env st tys b)"
  unfolding setBody_def by (auto intro!: sA_frame)

lemma sA_rewriteStruct:
  assumes "\<And>t s. stableAt K s (rw t)" and "StructTy st \<in> K"
  shows "stableAt K s (rewriteStruct n rw env st)"
  unfolding rewriteStruct_def Let_def
  by (auto intro!: sA_bind sA_CAR sA_setMapping sA_byteLayoutLoop sA_forgeNewTypes
        sA_collapseOrKeep sA_setBody assms
        split: option.splits sum.splits prod.splits)

lemma sA_fresh:
  "stableAt {k} s m \<Longrightarrow> typesMapping s k = None \<Longrightarrow> stableAt {} s m"
  by (auto simp: stableAt_def intro: stableExcept_fresh)

lemma sA_used:
  "typesMapping s t = Some f \<Longrightarrow> elementMappingKind f = COLLAPSING \<Longrightarrow>
     \<not> isStructTy (mappedType f) \<Longrightarrow>
     stableAt {} s (setMapping t (f\<lparr>elementMappingKind := COLLAPSING_BUT_USED\<rparr>))"
  by (auto simp: stableAt_def setMapping_def mmodify_def stableExcept_def keeps_def
        split: option.splits)

lemma sA_rewriteTypeBody_fresh:
  assumes rw: "\<And>t s. stableAt {} s (rw t)" and None: "typesMapping s t = None"
  shows "stableAt {t} s (rewriteTypeBody n rw env t)"
proof -
  note rw' = sA_mono [OF rw]
  show ?thesis
    using None unfolding rewriteTypeBody_def
    apply (cases t; simp only: ty.case)
            apply (rule sA_abort | (rule sA_get_bind, simp only: option.case ty.case,
              auto intro!: sA_bind sA_mfold sA_CAR sA_ret sA_rewriteStruct rw'
                split: ty.splits)[1])+
    done
qed

lemma sA_rewriteTypeBody_found:
  assumes rw: "\<And>t s. stableAt {} s (rw t)" and Some: "typesMapping s t = Some f"
  shows "stableAt {} s (rewriteTypeBody n rw env t)"
  using Some unfolding rewriteTypeBody_def
  apply (cases t; simp only: ty.case)
          apply (rule sA_abort | (rule sA_get_bind, simp only: option.case,
            auto intro!: sA_abort sA_ret rw sA_bind sA_used)[1])+
  done

lemma sA_rewriteTypeBody:
  assumes rw: "\<And>t s. stableAt {} s (rw t)"
  shows "stableAt {} s (rewriteTypeBody n rw env t)"
proof (cases "typesMapping s t")
  case None
  from sA_fresh [OF sA_rewriteTypeBody_fresh [OF rw None] None] show ?thesis .
next
  case (Some f)
  from sA_rewriteTypeBody_found [OF rw Some] show ?thesis .
qed

lemma sA_rewriteType: "stableAt {} s (rewriteType n env t)"
  by (induction n arbitrary: s t) (auto intro!: sA_rewriteTypeBody)


lemma rewriteTypeBody_collapsing:
  "typesMapping s t = Some f \<Longrightarrow> elementMappingKind f = COLLAPSING \<Longrightarrow>
   (\<forall>k. t \<noteq> NewStructTy k) \<Longrightarrow>
     rewriteTypeBody n rw env t s =
       (if isStructTy (mappedType f) then
          (if mappedType f = t then Abort else rw (mappedType f) s)
        else Done (f\<lparr>elementMappingKind := COLLAPSING_BUT_USED\<rparr>,
                   s\<lparr>typesMapping := (typesMapping s)
                        (t \<mapsto> f\<lparr>elementMappingKind := COLLAPSING_BUT_USED\<rparr>)\<rparr>))"
  unfolding rewriteTypeBody_def
  by (cases t) (simp_all add: mbind_def mget_def mret_def mabort_def setMapping_def mmodify_def)

lemma rewriteType_not_new: "rewriteType n env t s = Done (i, s') \<Longrightarrow> t \<noteq> NewStructTy k"
  by (cases n) (auto simp: mtimeout_def rewriteTypeBody_def mabort_def)

lemma rewriteType_again:
  "rewriteType n env t s = Done (i, s') \<Longrightarrow> rewriteType n env t s' = Done (i, s')"
proof (induction n arbitrary: t s i s')
  case 0
  then show ?case by (simp add: mtimeout_def)
next
  case (Suc n)
  have nn: "\<forall>k. t \<noteq> NewStructTy k"
    using rewriteType_not_new [OF Suc.prems] by blast
  from Suc.prems have run: "rewriteTypeBody n (rewriteType n env) env t s = Done (i, s')"
    by simp
  show ?case
  proof (cases "isCollapsingEntry (typesMapping s) t")
    case False
    from rewriteTypeBody_result [OF run False]
    have "typesMapping s' t = Some i" and "elementMappingKind i \<noteq> COLLAPSING" by simp_all
    from rewriteTypeBody_memo [OF this nn] show ?thesis by simp
  next
    case True
    then obtain f where f: "typesMapping s t = Some f" and k: "elementMappingKind f = COLLAPSING"
      by (auto simp: isCollapsingEntry_def split: option.splits)
    note body = rewriteTypeBody_collapsing [OF _ _ nn]
    show ?thesis
    proof (cases "isStructTy (mappedType f)")
      case True
      with run f k nn have ne: "mappedType f \<noteq> t"
        and fw: "rewriteType n env (mappedType f) s = Done (i, s')"
        by (auto simp: body split: if_splits)
      from sA_rewriteType [of s n env "mappedType f"] fw have "keeps s s' t"
        by (simp add: stableAt_def stableExcept_def)
      with f True have f': "typesMapping s' t = Some f"
        by (auto simp: keeps_def)
      from Suc.IH [OF fw] True ne show ?thesis
        by (simp add: body [OF f' k])
    next
      case False
      with run f k have i: "i = f\<lparr>elementMappingKind := COLLAPSING_BUT_USED\<rparr>"
        and s': "typesMapping s' t = Some i"
        by (auto simp: body)
      from i have "elementMappingKind i \<noteq> COLLAPSING" by simp
      from rewriteTypeBody_memo [OF s' this nn] show ?thesis by simp
    qed
  qed
qed

text \<open>
  C6. A second call \<open>rewriteType(t)\<close>, made once the first has returned, returns the same
  \<open>TypeMappingInfo\<close> and leaves the tables as they are. Unless the first call was made
  while \<open>t\<close> itself was being collapsed, the second call answers from the memo table,
  whatever the recursive calls would do (\<open>rw\<close> and its fuel are arbitrary).
\<close>

theorem C6_rewriteType_memoized:
  assumes run: "rewriteType n env t s = Done (i, s')"
  shows "rewriteType n env t s' = Done (i, s')
       \<and> (\<not> isCollapsingEntry (typesMapping s) t \<longrightarrow>
            (\<forall>m rw. rewriteTypeBody m rw env t s' = Done (i, s')))"
proof (intro conjI impI allI)
  from run show "rewriteType n env t s' = Done (i, s')" by (rule rewriteType_again)
next
  fix m rw
  assume top: "\<not> isCollapsingEntry (typesMapping s) t"
  have nn: "\<forall>k. t \<noteq> NewStructTy k"
    using rewriteType_not_new [OF run] by blast
  from rewriteType_result [OF run top]
  have "typesMapping s' t = Some i" and "elementMappingKind i \<noteq> COLLAPSING" by simp_all
  from rewriteTypeBody_memo [OF this nn] show "rewriteTypeBody m rw env t s' = Done (i, s')" .
qed

lemma wrapper_first_call:
  "case rewriteType 3 (plainEnv wrapperStructs) (StructTy 0) initialState of
     Done (i, s) \<Rightarrow> i = TMI (IntTy 32) COLLAPSED | _ \<Rightarrow> False"
  by code_simp

theorem C6_rewriteType_memoized_witness:
  "case rewriteType 3 (plainEnv wrapperStructs) (StructTy 0) initialState of
     Done (i, s') \<Rightarrow>
       i = TMI (IntTy 32) COLLAPSED
       \<and> rewriteType 3 (plainEnv wrapperStructs) (StructTy 0) s' = Done (i, s')
       \<and> rewriteTypeBody 0 (\<lambda>t. mabort) (plainEnv wrapperStructs) (StructTy 0) s' = Done (i, s')
   | _ \<Rightarrow> False"
proof -
  obtain i s' where
    run: "rewriteType 3 (plainEnv wrapperStructs) (StructTy 0) initialState = Done (i, s')"
    and i: "i = TMI (IntTy 32) COLLAPSED"
    using wrapper_first_call by (auto split: result.splits)
  have top: "\<not> isCollapsingEntry (typesMapping initialState) (StructTy 0)"
    by (simp add: isCollapsingEntry_def initialState_def)
  from C6_rewriteType_memoized [OF run] top run i
  show ?thesis by simp
qed

subsection \<open>Byte layout structs\<close>

lemma rewriteStruct_not_flat:
  "byteLayoutLoop n rw env st s = Done (None, s1) \<Longrightarrow>
   rewriteStruct n rw env st s = Done (i, s') \<Longrightarrow>
   \<not> isClientType env (StructTy st) \<Longrightarrow> \<not> isOpaque (structs env st) \<Longrightarrow>
   hasByteLayout (structs env st) \<Longrightarrow>
     elementMappingKind i \<noteq> BYTE_LAYOUT_TO_ARRAY"
  unfolding rewriteStruct_def Let_def
  by (auto simp: mbind_def mret_def CAR_Done TMI_def
        dest!: collapseOrKeep_result forgeNewTypes_kind
        split: result.splits option.splits if_splits sum.splits prod.splits)

text \<open>
  C4. A byte layout struct that is not yet in the memo table, is no client type and not
  opaque; \<open>s1\<close> is the table of leaf types once the struct's own fields are added to the
  views gathered before. If the views agree on \<open>leaf\<close>, the size of \<open>leaf\<close> divides the
  size of the struct, and the loop over the struct typed fields finds each of them
  convertible (a byte layout struct that \<open>rewriteType\<close> gives the kind
  \<open>BYTE_LAYOUT_TO_ARRAY\<close>), then \<open>rewriteType\<close> returns the array of \<open>leaf\<close> of length
  struct size / leaf size, or \<open>leaf\<close> itself for the length 1, with the kind
  \<open>BYTE_LAYOUT_TO_ARRAY\<close>. If the views disagree, the kind returned is not
  \<open>BYTE_LAYOUT_TO_ARRAY\<close>.
\<close>

theorem C4_byte_layout_flattening:
  assumes fresh: "typesMapping s (StructTy st) = None"
      and st: "\<not> isClientType env (StructTy st)" "\<not> isOpaque (structs env st)"
              "hasByteLayout (structs env st)"
      and views: "addAllBaseTypesForByteLayout n env st (StructTy st) s = Done ((), s1)"
  shows "(baseTypesForByteLayout s1 st = Some (Some leaf) \<longrightarrow>
          0 < getTypeAllocSize env leaf \<longrightarrow>
          getTypeAllocSize env (StructTy st) mod getTypeAllocSize env leaf = 0 \<longrightarrow>
          subStructsLoop (rewriteType n env) env (elems (structs env st)) s1 = Done (True, s2) \<longrightarrow>
          numElements = getTypeAllocSize env (StructTy st) div getTypeAllocSize env leaf \<longrightarrow>
          newType = (if numElements = 1 then leaf else ArrTy leaf numElements) \<longrightarrow>
            rewriteType (Suc n) env (StructTy st) s
              = Done (TMI newType BYTE_LAYOUT_TO_ARRAY,
                      s2\<lparr>typesMapping := (typesMapping s2)(StructTy st \<mapsto>
                                            TMI newType BYTE_LAYOUT_TO_ARRAY)\<rparr>))
       \<and> (baseTypesForByteLayout s1 st = Some None \<longrightarrow>
          rewriteType (Suc n) env (StructTy st) s = Done (i, s') \<longrightarrow>
            elementMappingKind i \<noteq> BYTE_LAYOUT_TO_ARRAY)"
proof (intro conjI impI)
  assume "baseTypesForByteLayout s1 st = Some (Some leaf)"
     and "0 < getTypeAllocSize env leaf"
     and "getTypeAllocSize env (StructTy st) mod getTypeAllocSize env leaf = 0"
     and "subStructsLoop (rewriteType n env) env (elems (structs env st)) s1 = Done (True, s2)"
     and "numElements = getTypeAllocSize env (StructTy st) div getTypeAllocSize env leaf"
     and "newType = (if numElements = 1 then leaf else ArrTy leaf numElements)"
  with fresh st views
  show "rewriteType (Suc n) env (StructTy st) s
          = Done (TMI newType BYTE_LAYOUT_TO_ARRAY,
                  s2\<lparr>typesMapping := (typesMapping s2)(StructTy st \<mapsto>
                                        TMI newType BYTE_LAYOUT_TO_ARRAY)\<rparr>)"
    by (simp add: rewriteTypeBody_def rewriteStruct_def byteLayoutLoop_def monad_defs Let_def)
next
  assume none: "baseTypesForByteLayout s1 st = Some None"
     and run: "rewriteType (Suc n) env (StructTy st) s = Done (i, s')"
  from run fresh have rs: "rewriteStruct n (rewriteType n env) env st s = Done (i, s')"
    by (simp add: rewriteTypeBody_def mbind_def mget_def)
  from views none have "byteLayoutLoop n (rewriteType n env) env st s = Done (None, s1)"
    by (simp add: byteLayoutLoop_def monad_defs)
  from rewriteStruct_not_flat [OF this rs st]
  show "elementMappingKind i \<noteq> BYTE_LAYOUT_TO_ARRAY" .
qed

lemma union_views:
  "case gatherBitCasts 2 (plainEnv unionStructs) unionViews initialState of
     Done (u, s) \<Rightarrow>
       typesMapping s (StructTy 0) = None \<and> typesMapping s (StructTy 1) = None
       \<and> (case addAllBaseTypesForByteLayout 3 (plainEnv unionStructs) 0 (StructTy 0) s of
             Done (u1, s1) \<Rightarrow>
               baseTypesForByteLayout s1 0 = Some (Some DoubleTy)
               \<and> (case subStructsLoop (rewriteType 3 (plainEnv unionStructs)) (plainEnv unionStructs)
                           (elems (structs (plainEnv unionStructs) 0)) s1 of
                     Done (b, s2) \<Rightarrow> b | _ \<Rightarrow> False)
           | _ \<Rightarrow> False)
       \<and> (case addAllBaseTypesForByteLayout 3 (plainEnv unionStructs) 1 (StructTy 1) s of
             Done (u1, s1) \<Rightarrow> baseTypesForByteLayout s1 1 = Some None
           | _ \<Rightarrow> False)
       \<and> (case rewriteType 4 (plainEnv unionStructs) (StructTy 1) s of
             Done (i, s') \<Rightarrow> i = TMI (NewStructTy 1) IDENTICAL | _ \<Rightarrow> False)
   | _ \<Rightarrow> False"
  by code_simp

lemma union_env:
  "\<not> isClientType (plainEnv unionStructs) (StructTy 0)"
  "\<not> isOpaque (structs (plainEnv unionStructs) 0)"
  "hasByteLayout (structs (plainEnv unionStructs) 0)"
  "\<not> isClientType (plainEnv unionStructs) (StructTy 1)"
  "\<not> isOpaque (structs (plainEnv unionStructs) 1)"
  "hasByteLayout (structs (plainEnv unionStructs) 1)"
  "getTypeAllocSize (plainEnv unionStructs) DoubleTy = 8"
  "getTypeAllocSize (plainEnv unionStructs) (StructTy 0) = 24"
  by (simp_all add: plainEnv_def unionStructs_def plainStruct_def eval_nat_numeral)


theorem C4_byte_layout_flattening_witness:
  "case gatherBitCasts 2 (plainEnv unionStructs) unionViews initialState of
     Done (u, s) \<Rightarrow>
       (case rewriteType 4 (plainEnv unionStructs) (StructTy 0) s of
          Done (i, s') \<Rightarrow> i = TMI (ArrTy DoubleTy 3) BYTE_LAYOUT_TO_ARRAY | _ \<Rightarrow> False)
       \<and> (case rewriteType 4 (plainEnv unionStructs) (StructTy 1) s of
          Done (i, s') \<Rightarrow> elementMappingKind i \<noteq> BYTE_LAYOUT_TO_ARRAY | _ \<Rightarrow> False)
   | _ \<Rightarrow> False"
proof -
  let ?env = "plainEnv unionStructs"
  obtain u s where g: "gatherBitCasts 2 ?env unionViews initialState = Done (u, s)"
    using union_views by (auto split: result.splits)
  from union_views g have f0: "typesMapping s (StructTy 0) = None"
    and f1: "typesMapping s (StructTy 1) = None" by simp_all
  from union_views g have
    "case addAllBaseTypesForByteLayout 3 ?env 0 (StructTy 0) s of
       Done (u1, s1) \<Rightarrow>
         baseTypesForByteLayout s1 0 = Some (Some DoubleTy)
         \<and> (case subStructsLoop (rewriteType 3 ?env) ?env (elems (structs ?env 0)) s1 of
               Done (b, s2) \<Rightarrow> b | _ \<Rightarrow> False)
     | _ \<Rightarrow> False" by simp
  then obtain s1 where
    v0: "addAllBaseTypesForByteLayout 3 ?env 0 (StructTy 0) s = Done ((), s1)"
    and l0: "baseTypesForByteLayout s1 0 = Some (Some DoubleTy)"
    and sub: "case subStructsLoop (rewriteType 3 ?env) ?env (elems (structs ?env 0)) s1 of
                Done (b, s2) \<Rightarrow> b | _ \<Rightarrow> False"
    by (cases "addAllBaseTypesForByteLayout 3 ?env 0 (StructTy 0) s") auto
  from sub obtain s2 where
    sub2: "subStructsLoop (rewriteType 3 ?env) ?env (elems (structs ?env 0)) s1 = Done (True, s2)"
    by (cases "subStructsLoop (rewriteType 3 ?env) ?env (elems (structs ?env 0)) s1") auto
  from union_views g obtain s1' where
    v1: "addAllBaseTypesForByteLayout 3 ?env 1 (StructTy 1) s = Done ((), s1')"
    and l1: "baseTypesForByteLayout s1' 1 = Some None"
    by (auto split: result.splits)
  from union_views g obtain i1 s1'' where
    r1: "rewriteType (Suc 3) ?env (StructTy 1) s = Done (i1, s1'')"
    by (auto split: result.splits simp: eval_nat_numeral)
  have a: "rewriteType (Suc 3) ?env (StructTy 0) s
             = Done (TMI (ArrTy DoubleTy 3) BYTE_LAYOUT_TO_ARRAY,
                     s2\<lparr>typesMapping := (typesMapping s2)(StructTy 0 \<mapsto>
                                        TMI (ArrTy DoubleTy 3) BYTE_LAYOUT_TO_ARRAY)\<rparr>)"
    using C4_byte_layout_flattening [OF f0 union_env(1-3) v0,
            of DoubleTy s2 3 "ArrTy DoubleTy 3"] l0 sub2
    by (simp add: union_env)
  have b: "elementMappingKind i1 \<noteq> BYTE_LAYOUT_TO_ARRAY"
    using C4_byte_layout_flattening [OF f1 union_env(4-6) v1, of _ _ _ _ i1 s1''] l1 r1
    by simp
  have four: "(4::nat) = Suc 3" by simp
  from g a b r1 show ?thesis unfolding four by simp
qed

subsection \<open>Pointers to arrays and the trailing zero index\<close>












subsection \<open>Self referential structs\<close>

lemma selfRef_asserts:
  "case rewriteType (Suc (Suc (Suc (Suc (Suc n))))) (plainEnv selfRefStructs) (StructTy 0)
          initialState of
     Abort \<Rightarrow> True | _ \<Rightarrow> False"
  by code_simp

text \<open>
  C3 at the struct 0 = \<open>{ [2 x struct 1], [2 x struct 1] }\<close> with struct 1 =
  \<open>{ struct 0*, i32 }\<close>, which reaches itself through the pointer in struct 1. The two
  member arrays are merged into \<open>[4 x new struct 1]\<close>, the single field left; the collapse
  attempt calls \<open>rewriteType\<close> on this already rewritten type, and the call on the new
  struct fails the assertion at the head of \<open>rewriteType\<close>. With five units of fuel or
  more the result is the failed assertion, never a \<open>TypeMappingInfo\<close>.
\<close>

theorem C3_merged_self_reference_asserts:
  "rewriteType (n + 5) (plainEnv selfRefStructs) (StructTy 0) initialState = Abort"
  using selfRef_asserts [of n] by (simp add: eval_nat_numeral split: result.splits)

subsection \<open>Collapsing a struct with one field left\<close>













end
